theory Spec2Isabelle
  imports Main "HOL-Library.AList"
begin

section \<open>Exceptions, time and strings\<close>

text \<open>
  Python distinguishes \<^verbatim>\<open>asyncio.CancelledError\<close> (a \<^verbatim>\<open>BaseException\<close>, not caught by
  \<^verbatim>\<open>except Exception\<close>) from ordinary exceptions. \<open>Exception msg\<close> carries \<^verbatim>\<open>str(e)\<close>.
\<close>

datatype exn = CancelledError | Exception string

text \<open>
  Instants of the one clock that \<^verbatim>\<open>time.time()\<close> and the cache's expiry read, in seconds.
\<close>

type_synonym time = nat

text \<open>Python's \<^verbatim>\<open>str\<close> of a non-negative and of any integer, as f-strings render them.\<close>

fun str_nat :: "nat \<Rightarrow> string" where
  "str_nat n =
     (if n < 10 then [''0123456789'' ! n]
      else str_nat (n div 10) @ [''0123456789'' ! (n mod 10)])"

declare str_nat.simps [simp del]

definition str_int :: "int \<Rightarrow> string" where
  "str_int i = (if i < 0 then ''-'' @ str_nat (nat (- i)) else str_nat (nat i))"

section \<open>Data models (models.py)\<close>

datatype AgentStatus = PENDING | RUNNING | COMPLETE | WARNING | ERROR | FAILED | CANCELLED

text \<open>\<^verbatim>\<open>AgentStatus.value\<close> and the lookup \<^verbatim>\<open>AgentStatus(value)\<close>, which raises \<^verbatim>\<open>ValueError\<close>
  on a string that is no member's value.\<close>

fun status_value :: "AgentStatus \<Rightarrow> string" where
  "status_value PENDING = ''pending''"
| "status_value RUNNING = ''running''"
| "status_value COMPLETE = ''complete''"
| "status_value WARNING = ''warning''"
| "status_value ERROR = ''error''"
| "status_value FAILED = ''failed''"
| "status_value CANCELLED = ''cancelled''"

definition status_of_value :: "string \<Rightarrow> exn + AgentStatus" where
  "status_of_value s =
     (if s = ''pending'' then Inr PENDING
      else if s = ''running'' then Inr RUNNING
      else if s = ''complete'' then Inr COMPLETE
      else if s = ''warning'' then Inr WARNING
      else if s = ''error'' then Inr ERROR
      else if s = ''failed'' then Inr FAILED
      else if s = ''cancelled'' then Inr CANCELLED
      else Inl (Exception (s @ '' is not a valid AgentStatus'')))"

text \<open>The terminal statuses of the worker life cycle.\<close>

fun terminal :: "AgentStatus \<Rightarrow> bool" where
  "terminal PENDING = False"
| "terminal RUNNING = False"
| "terminal _ = True"

record AgentWorker =
  wid :: string
  task :: string
  status :: AgentStatus
  priority :: int
  depends_on :: "string list"
  result :: "string option"
  error :: "string option"
  tools_used :: "string list"
  started_at :: "time option"
  completed_at :: "time option"

text \<open>The dict that \<^verbatim>\<open>to_dict\<close> builds: the same ten keys, the status by its value.\<close>

record worker_dict =
  d_id :: string
  d_task :: string
  d_status :: string
  d_priority :: int
  d_depends_on :: "string list"
  d_result :: "string option"
  d_error :: "string option"
  d_tools_used :: "string list"
  d_started_at :: "time option"
  d_completed_at :: "time option"

definition to_dict :: "AgentWorker \<Rightarrow> worker_dict" where
  "to_dict w = \<lparr>d_id = wid w, d_task = task w, d_status = status_value (status w),
     d_priority = priority w, d_depends_on = depends_on w, d_result = result w,
     d_error = error w, d_tools_used = tools_used w, d_started_at = started_at w,
     d_completed_at = completed_at w\<rparr>"

definition from_dict :: "worker_dict \<Rightarrow> exn + AgentWorker" where
  "from_dict d =
     (case status_of_value (d_status d) of
        Inl e \<Rightarrow> Inl e
      | Inr st \<Rightarrow> Inr \<lparr>wid = d_id d, task = d_task d, status = st, priority = d_priority d,
          depends_on = d_depends_on d, result = d_result d, error = d_error d,
          tools_used = d_tools_used d, started_at = d_started_at d,
          completed_at = d_completed_at d\<rparr>)"

section \<open>The registry (registry.py)\<close>

text \<open>
  The registry talks to Django's cache, a key-value store with a time to live per entry.
  An entry is stored with the instant at which it expires and is returned while the clock
  is before that instant. \<^verbatim>\<open>cache.get(key, default)\<close> is \<open>cache_get\<close> with the default
  supplied by the caller.
\<close>

type_synonym 'v cache = "string \<rightharpoonup> ('v \<times> time)"

definition cache_get :: "'v cache \<Rightarrow> time \<Rightarrow> string \<Rightarrow> 'v option" where
  "cache_get c now key =
     (case c key of None \<Rightarrow> None
      | Some (v, expiry) \<Rightarrow> if now < expiry then Some v else None)"

definition cache_set :: "'v cache \<Rightarrow> time \<Rightarrow> string \<Rightarrow> 'v \<Rightarrow> nat \<Rightarrow> 'v cache" where
  "cache_set c now key v timeout = c(key \<mapsto> (v, now + timeout))"


text \<open>
  The three key families of the registry hold values of three types (worker dicts, id
  lists, tool outputs) and never share a key (lemmas \<open>worker_key_neq_list_key\<close> to
  \<open>list_key_neq_tool_key\<close>), so the store is one typed cache per family, each under the
  full key string.
\<close>

record registry =
  workers :: "worker_dict cache"
  worker_lists :: "string list cache"
  tool_cache :: "string cache"

definition empty_registry :: registry where
  "empty_registry = \<lparr>workers = Map.empty, worker_lists = Map.empty, tool_cache = Map.empty\<rparr>"

definition gen_key :: "string \<Rightarrow> string \<Rightarrow> string" where
  "gen_key prefix identifier = ''ai_crew:'' @ prefix @ '':'' @ identifier"

definition worker_key :: "int \<Rightarrow> string \<Rightarrow> string" where
  "worker_key project_id worker_id = gen_key (''workers:'' @ str_int project_id) worker_id"

definition worker_list_key :: "int \<Rightarrow> string" where
  "worker_list_key project_id = gen_key ''worker_list'' (str_int project_id)"

definition tool_cache_key :: "string \<Rightarrow> string" where
  "tool_cache_key hash_key = gen_key ''tool_cache'' hash_key"

definition current_list :: "registry \<Rightarrow> time \<Rightarrow> int \<Rightarrow> string list" where
  "current_list r now project_id =
     (case cache_get (worker_lists r) now (worker_list_key project_id) of
        None \<Rightarrow> [] | Some l \<Rightarrow> l)"

definition set_worker :: "registry \<Rightarrow> time \<Rightarrow> int \<Rightarrow> string \<Rightarrow> worker_dict \<Rightarrow> nat \<Rightarrow> registry" where
  "set_worker r now project_id worker_id data timeout =
     (let r1 = r\<lparr>workers := cache_set (workers r) now (worker_key project_id worker_id) data timeout\<rparr>;
          l = current_list r1 now project_id
      in if worker_id \<notin> set l
         then r1\<lparr>worker_lists :=
                cache_set (worker_lists r1) now (worker_list_key project_id) (l @ [worker_id]) timeout\<rparr>
         else r1)"

definition get_worker :: "registry \<Rightarrow> time \<Rightarrow> int \<Rightarrow> string \<Rightarrow> worker_dict option" where
  "get_worker r now project_id worker_id =
     cache_get (workers r) now (worker_key project_id worker_id)"


text \<open>
  \<^verbatim>\<open>get_all_workers\<close>: the result dict, in insertion order; a worker dict always has its
  ten keys, so \<^verbatim>\<open>if data\<close> fails only for an absent or expired entry.
\<close>

definition get_all_workers :: "registry \<Rightarrow> time \<Rightarrow> int \<Rightarrow> (string \<times> worker_dict) list" where
  "get_all_workers r now project_id =
     fold (\<lambda>w results. case get_worker r now project_id w of
                          None \<Rightarrow> results
                        | Some data \<Rightarrow> AList.update w data results)
       (current_list r now project_id) []"

section \<open>The worker pool (worker_pool.py)\<close>

text \<open>
  An \<^verbatim>\<open>asyncio.Task\<close> of the table \<^verbatim>\<open>_tasks\<close>, as an awaiting coroutine sees it: not yet
  settled, or settled by returning (\<open>Settled None\<close>) or by raising (a cancelled task raises
  \<open>CancelledError\<close>).
\<close>

datatype task_state = Unsettled | Settled "exn option"

text \<open>
  The pool's mutable fields; \<^verbatim>\<open>_tasks\<close> is a dict, kept in insertion order. The other
  fields of the class are configuration that no operation below changes.
\<close>

record pool =
  project_id :: int
  tasks :: "(string \<times> task_state) list"
  next_id :: nat

definition new_pool :: "int \<Rightarrow> pool" where
  "new_pool p = \<lparr>project_id = p, tasks = [], next_id = 0\<rparr>"

definition generate_id :: "pool \<Rightarrow> string \<times> pool" where
  "generate_id p = (''agent-'' @ str_nat (next_id p), p\<lparr>next_id := next_id p + 1\<rparr>)"

text \<open>
  \<^verbatim>\<open>spawn\<close>: a fresh id, the \<^verbatim>\<open>PENDING\<close> record written to the registry, and the new task
  entered in the table (it has not run yet). \<^verbatim>\<open>depends_on or []\<close> reads \<open>None\<close> as \<open>[]\<close>.
  \<^verbatim>\<open>_emit\<close> calls \<^verbatim>\<open>on_worker_event\<close> only when one is installed; the repository constructs
  its orchestrator without one, and events are not part of the model.
\<close>

definition new_worker :: "string \<Rightarrow> string \<Rightarrow> int \<Rightarrow> string list option \<Rightarrow> AgentWorker" where
  "new_worker worker_id tsk prio deps =
     \<lparr>wid = worker_id, task = tsk, status = PENDING, priority = prio,
      depends_on = (case deps of None \<Rightarrow> [] | Some ds \<Rightarrow> ds),
      result = None, error = None, tools_used = [], started_at = None, completed_at = None\<rparr>"

definition spawn :: "pool \<Rightarrow> registry \<Rightarrow> time \<Rightarrow> string \<Rightarrow> int \<Rightarrow> string list option
    \<Rightarrow> string \<times> pool \<times> registry" where
  "spawn p r now tsk prio deps =
     (let (worker_id, p1) = generate_id p;
          worker = new_worker worker_id tsk prio deps;
          r1 = set_worker r now (project_id p1) worker_id (to_dict worker) 3600;
          p2 = p1\<lparr>tasks := AList.update worker_id Unsettled (tasks p1)\<rparr>
      in (worker_id, p2, r1))"

text \<open>
  \<^verbatim>\<open>await task\<close>: \<open>None\<close> while the task is unsettled (the awaiting coroutine stays
  suspended), otherwise the task's return or the exception it raised, re-raised in the
  awaiting coroutine.
\<close>

fun await_task :: "task_state \<Rightarrow> (exn + unit) option" where
  "await_task Unsettled = None"
| "await_task (Settled None) = Some (Inr ())"
| "await_task (Settled (Some e)) = Some (Inl e)"

text \<open>
  \<^verbatim>\<open>_wait_for_dependencies\<close>: ids missing from the table are skipped; the handler
  \<^verbatim>\<open>except (asyncio.CancelledError, Exception): pass\<close> covers both kinds of exception.
  \<open>None\<close>: the coroutine stays suspended on an unsettled task.
\<close>

fun wait_for_dependencies :: "(string \<times> task_state) list \<Rightarrow> string list \<Rightarrow> unit option" where
  "wait_for_dependencies ts [] = Some ()"
| "wait_for_dependencies ts (dep_id # deps) =
     (case map_of ts dep_id of
        None \<Rightarrow> wait_for_dependencies ts deps
      | Some t \<Rightarrow>
          (case await_task t of
             None \<Rightarrow> None
           | Some (Inr _) \<Rightarrow> wait_for_dependencies ts deps
           | Some (Inl CancelledError) \<Rightarrow> wait_for_dependencies ts deps
           | Some (Inl (Exception _)) \<Rightarrow> wait_for_dependencies ts deps))"

section \<open>Messages of the agent loop (base_agent.py)\<close>

text \<open>Argument values of a tool call; the dict of arguments is a finite mapping.\<close>

datatype json = JNull | JBool bool | JInt int | JStr string

type_synonym arguments = "string \<rightharpoonup> json"

record ToolCall =
  tc_id :: string
  tc_name :: string
  tc_arguments :: arguments

record ToolResult =
  tool_call_id :: string
  tool_name :: string
  tr_result :: "string option"
  tr_error :: "string option"
  success :: bool

record AgentMessage =
  role :: string
  content :: "string option"
  tool_calls :: "ToolCall list option"
  tool_results :: "ToolResult list option"
  metadata :: "(string \<times> bool) list"
  usage :: "(string \<times> int) list option"

text \<open>Python truthiness of an optional string and of an optional list.\<close>

definition truthy :: "'a list option \<Rightarrow> bool" where
  "truthy s = (case s of None \<Rightarrow> False | Some x \<Rightarrow> x \<noteq> [])"

section \<open>Running one worker (worker_pool.py, \<^verbatim>\<open>_run_worker\<close>)\<close>

text \<open>
  \<^verbatim>\<open>StepStatus\<close> is declared in \<^verbatim>\<open>tools/finish.py\<close>, which is not among the sources: the
  three members the code names, and one constructor for any other member.
\<close>

datatype StepStatus = STEP_COMPLETE | STEP_SKIP | STEP_FAIL | STEP_OTHER

record PlanStep =
  description :: string
  step_status :: StepStatus
  step_result :: "string option"

text \<open>The markers are the UTF-8 bytes of the check mark, the circled slash, the ballot
  cross and the middle dot.\<close>

fun status_marker :: "StepStatus \<Rightarrow> string" where
  "status_marker STEP_COMPLETE = [CHR 0xE2, CHR 0x9C, CHR 0x93]"
| "status_marker STEP_SKIP = [CHR 0xE2, CHR 0x8A, CHR 0x98]"
| "status_marker STEP_FAIL = [CHR 0xE2, CHR 0x9C, CHR 0x97]"
| "status_marker STEP_OTHER = [CHR 0xC2, CHR 0xB7]"

fun join :: "string \<Rightarrow> string list \<Rightarrow> string" where
  "join sep [] = []"
| "join sep [x] = x"
| "join sep (x # y # ys) = x @ sep @ join sep (y # ys)"

definition plan_summary :: "PlanStep list option \<Rightarrow> string" where
  "plan_summary plan =
     (case plan of
        None \<Rightarrow> []
      | Some steps \<Rightarrow>
          (let steps_with_info = filter (\<lambda>s. truthy (step_result s)) steps
           in join [CHR 0x0A]
                (map (\<lambda>s. status_marker (step_status s) @ '' '' @ description s @ '': '' @
                          (case step_result s of
                             None \<Rightarrow> ''No details''
                           | Some info \<Rightarrow> if info \<noteq> [] then info else ''No details''))
                   steps_with_info)))"

text \<open>The tool names of a response, appended to \<^verbatim>\<open>tools_used\<close> when new.\<close>

definition note_tool :: "ToolCall \<Rightarrow> AgentWorker \<Rightarrow> AgentWorker" where
  "note_tool tc w =
     (if tc_name tc \<notin> set (tools_used w) then w\<lparr>tools_used := tools_used w @ [tc_name tc]\<rparr>
      else w)"

definition track_tools :: "AgentWorker \<Rightarrow> AgentMessage \<Rightarrow> AgentWorker" where
  "track_tools w response =
     (case tool_calls response of None \<Rightarrow> w | Some tcs \<Rightarrow> fold note_tool tcs w)"

text \<open>\<^verbatim>\<open>response.metadata.get(k)\<close> as a condition.\<close>

definition meta_flag :: "(string \<times> bool) list \<Rightarrow> string \<Rightarrow> bool" where
  "meta_flag md k = (case map_of md k of None \<Rightarrow> False | Some b \<Rightarrow> b)"

text \<open>
  The variables of the \<^verbatim>\<open>try\<close> block, and the registry writes made so far: each
  \<^verbatim>\<open>set_worker\<close> call of the run, with the instant of the call and the dict written.
\<close>

record loop_vars =
  worker :: AgentWorker
  final_response :: string
  hit_max_iterations :: bool
  is_infeasible :: bool
  writes :: "(time \<times> worker_dict) list"

text \<open>One iteration of \<^verbatim>\<open>async for response in agent.agent_loop(worker.task)\<close>, for the
  response yielded at instant \<open>t\<close>.\<close>

definition loop_step :: "loop_vars \<Rightarrow> time \<times> AgentMessage \<Rightarrow> loop_vars" where
  "loop_step v x =
     (let (t, response) = x;
          w1 = track_tools (worker v) response;
          md = metadata response
      in \<lparr>worker = w1,
          final_response =
            (case content response of
               None \<Rightarrow> final_response v
             | Some c \<Rightarrow> if c \<noteq> [] \<and> \<not> truthy (tool_calls response) then c
                         else final_response v),
          hit_max_iterations =
            (if md \<noteq> [] \<and> meta_flag md ''max_iterations_reached'' then True
             else hit_max_iterations v),
          is_infeasible =
            (if md \<noteq> [] \<and> meta_flag md ''replan_impossible'' then True
             else is_infeasible v),
          writes = writes v @ [(t, to_dict w1)]\<rparr>)"

text \<open>
  What the surroundings of one run supply: the instant at which the worker turns
  \<^verbatim>\<open>RUNNING\<close>, the outcome of \<^verbatim>\<open>worker_runtime.start()\<close>, the responses the agent loop
  yields (each with its instant), how the loop ends (exhausted, or an exception raised in
  it, \<open>CancelledError\<close> when the task is cancelled there), the runtime's plan, the instant
  of the final bookkeeping, and the outcome of \<^verbatim>\<open>worker_runtime.stop()\<close>.
\<close>

record run_env =
  e_now_start :: time
  e_start :: "exn option"
  e_responses :: "(time \<times> AgentMessage) list"
  e_loop_end :: "exn option"
  e_plan :: "PlanStep list option"
  e_now_end :: time
  e_stop :: "exn option"

text \<open>How the run leaves the worker object, what it wrote, and how its task settles.\<close>

record run_result =
  r_worker :: AgentWorker
  r_writes :: "(time \<times> worker_dict) list"
  r_outcome :: "exn option"

text \<open>\<^verbatim>\<open>plan_summary or final_response or "No findings."\<close>\<close>

definition worker_result :: "string \<Rightarrow> string \<Rightarrow> string" where
  "worker_result summary final =
     (if summary \<noteq> [] then summary else if final \<noteq> [] then final else ''No findings.'')"

text \<open>The variables after the \<^verbatim>\<open>async for\<close> loop has consumed every yielded response.\<close>

definition run_loop :: "run_env \<Rightarrow> AgentWorker \<Rightarrow> (time \<times> worker_dict) list \<Rightarrow> loop_vars" where
  "run_loop env w ws =
     fold (\<lambda>x v. loop_step v x) (e_responses env)
       \<lparr>worker = w, final_response = [], hit_max_iterations = False,
        is_infeasible = False, writes = ws\<rparr>"

text \<open>
  The \<^verbatim>\<open>try\<close> block with its two handlers. As written, the source has an \<^verbatim>\<open>else:\<close> at the
  indentation of the block's statements, after the write of the result, with no \<^verbatim>\<open>if\<close> before
  it; its body \<^verbatim>\<open>worker.status = AgentStatus.COMPLETE\<close> is the only assignment of a status
  on the normal path, and the flags \<open>hit_max_iterations\<close> and \<open>is_infeasible\<close> are read
  nowhere. The body is taken to run on every normal completion (which is also what the
  \<^verbatim>\<open>else\<close> of the loop would do, the loop having no \<^verbatim>\<open>break\<close>).
\<close>

definition try_body :: "run_env \<Rightarrow> AgentWorker \<Rightarrow> (time \<times> worker_dict) list \<Rightarrow> run_result" where
  "try_body env w ws =
     (let v = run_loop env w ws;
          t = e_now_end env
      in case e_loop_end env of
           Some CancelledError \<Rightarrow>
             \<lparr>r_worker = (worker v)\<lparr>status := CANCELLED, completed_at := Some t\<rparr>,
              r_writes = writes v, r_outcome = Some CancelledError\<rparr>
         | Some (Exception msg) \<Rightarrow>
             (let w1 = (worker v)\<lparr>error := Some msg, status := ERROR, completed_at := Some t\<rparr>
              in \<lparr>r_worker = w1, r_writes = writes v @ [(t, to_dict w1)], r_outcome = None\<rparr>)
         | None \<Rightarrow>
             (let w1 = (worker v)\<lparr>result := Some (worker_result (plan_summary (e_plan env))
                                                   (final_response v)),
                                  completed_at := Some t\<rparr>;
                  w2 = w1\<lparr>status := COMPLETE\<rparr>
              in \<lparr>r_worker = w2, r_writes = writes v @ [(t, to_dict w1), (t, to_dict w2)],
                  r_outcome = None\<rparr>))"

text \<open>\<^verbatim>\<open>finally\<close>: exceptions of \<^verbatim>\<open>stop()\<close> are suppressed, a cancellation there propagates.\<close>

definition finally_stop :: "run_env \<Rightarrow> run_result \<Rightarrow> run_result" where
  "finally_stop env res =
     (case e_stop env of
        Some CancelledError \<Rightarrow> res\<lparr>r_outcome := Some CancelledError\<rparr>
      | _ \<Rightarrow> res)"

text \<open>
  \<^verbatim>\<open>_run_worker\<close> against the task table \<open>ts\<close>. \<open>None\<close>: the coroutine stays suspended on a
  dependency. An exception of \<^verbatim>\<open>worker_runtime.start()\<close> is raised before the \<^verbatim>\<open>try\<close> block
  and leaves the coroutine as it is.
\<close>

definition run_worker :: "(string \<times> task_state) list \<Rightarrow> run_env \<Rightarrow> AgentWorker \<Rightarrow> run_result option" where
  "run_worker ts env w =
     (case (if depends_on w \<noteq> [] then wait_for_dependencies ts (depends_on w) else Some ()) of
        None \<Rightarrow> None
      | Some _ \<Rightarrow>
          (let w1 = w\<lparr>status := RUNNING, started_at := Some (e_now_start env)\<rparr>;
               ws = [(e_now_start env, to_dict w1)]
           in case e_start env of
                Some e \<Rightarrow> Some \<lparr>r_worker = w1, r_writes = ws, r_outcome = Some e\<rparr>
              | None \<Rightarrow> Some (finally_stop env (try_body env w1 ws))))"

text \<open>The registry after the writes of a run, and the task table once the task settled.\<close>

definition apply_writes :: "int \<Rightarrow> (time \<times> worker_dict) list \<Rightarrow> registry \<Rightarrow> registry" where
  "apply_writes pid ws r = fold (\<lambda>(t, d) r. set_worker r t pid (d_id d) d 3600) ws r"

definition settle :: "pool \<Rightarrow> string \<Rightarrow> exn option \<Rightarrow> pool" where
  "settle p worker_id outcome = p\<lparr>tasks := AList.update worker_id (Settled outcome) (tasks p)\<rparr>"

text \<open>
  The task that \<^verbatim>\<open>spawn\<close> created, run to its end: the registry receives the writes of the
  run and the task settles with the run's outcome. A run that stays suspended changes
  nothing.
\<close>

definition run_task :: "run_env \<Rightarrow> AgentWorker \<Rightarrow> pool \<times> registry \<Rightarrow> pool \<times> registry" where
  "run_task env w pr =
     (let (p, r) = pr
      in case run_worker (tasks p) env w of
           None \<Rightarrow> (p, r)
         | Some res \<Rightarrow>
             (settle p (wid w) (r_outcome res), apply_writes (project_id p) (r_writes res) r))"

section \<open>Waiting and resetting (worker_pool.py)\<close>

record summary =
  s_task :: string
  s_status :: string
  s_result :: "string option"
  s_error :: "string option"
  s_tools_used :: "string list"

definition summary_of :: "AgentWorker \<Rightarrow> summary" where
  "summary_of w = \<lparr>s_task = task w, s_status = status_value (status w), s_result = result w,
     s_error = error w, s_tools_used = tools_used w\<rparr>"

text \<open>
  The loop of \<^verbatim>\<open>wait_for\<close> at instant \<open>now\<close>. Only ids of the task table are looked at;
  whatever the awaited task raised is dropped; the summary is built from the registry
  record, when there is one. \<open>None\<close>: the call stays suspended on an unsettled task;
  \<open>Some (Inl e)\<close>: \<^verbatim>\<open>from_dict\<close> raised.
\<close>

fun wait_for_loop :: "pool \<Rightarrow> registry \<Rightarrow> time \<Rightarrow> string list \<Rightarrow> (string \<times> summary) list
    \<Rightarrow> (exn + (string \<times> summary) list) option" where
  "wait_for_loop p r now [] results = Some (Inr results)"
| "wait_for_loop p r now (agent_id # ids) results =
     (case map_of (tasks p) agent_id of
        None \<Rightarrow> wait_for_loop p r now ids results
      | Some t \<Rightarrow>
          (case await_task t of
             None \<Rightarrow> None
           | Some _ \<Rightarrow>
               (case get_worker r now (project_id p) agent_id of
                  None \<Rightarrow> wait_for_loop p r now ids results
                | Some worker_data \<Rightarrow>
                    (case from_dict worker_data of
                       Inl e \<Rightarrow> Some (Inl e)
                     | Inr w \<Rightarrow>
                         wait_for_loop p r now ids (AList.update agent_id (summary_of w) results)))))"

definition wait_for :: "pool \<Rightarrow> registry \<Rightarrow> time \<Rightarrow> string list option
    \<Rightarrow> (exn + (string \<times> summary) list) option" where
  "wait_for p r now agent_ids =
     wait_for_loop p r now (case agent_ids of None \<Rightarrow> map fst (tasks p) | Some ids \<Rightarrow> ids) []"

text \<open>\<^verbatim>\<open>get_workers\<close>: every listed record through \<^verbatim>\<open>from_dict\<close>.\<close>

fun from_dicts :: "worker_dict list \<Rightarrow> exn + AgentWorker list" where
  "from_dicts [] = Inr []"
| "from_dicts (d # ds) =
     (case from_dict d of
        Inl e \<Rightarrow> Inl e
      | Inr w \<Rightarrow> (case from_dicts ds of Inl e \<Rightarrow> Inl e | Inr ws \<Rightarrow> Inr (w # ws)))"

definition get_workers :: "pool \<Rightarrow> registry \<Rightarrow> time \<Rightarrow> exn + AgentWorker list" where
  "get_workers p r now = from_dicts (map snd (get_all_workers r now (project_id p)))"


section \<open>The tool-call step of the agent loop (base_agent.py, registry.py)\<close>

text \<open>
  \<^verbatim>\<open>json.dumps(arguments, sort_keys=True)\<close> and \<^verbatim>\<open>hashlib.sha256(...).hexdigest()\<close> are library
  functions: parameters of the model. The first is a function of the mapping alone, since
  the keys are sorted before rendering.
\<close>

record hashing =
  json_dumps :: "arguments \<Rightarrow> string"
  sha256_hex :: "string \<Rightarrow> string"

definition generate_tool_hash :: "hashing \<Rightarrow> string \<Rightarrow> string \<Rightarrow> arguments \<Rightarrow> string \<Rightarrow> string" where
  "generate_tool_hash h agent_role tool arguments context =
     sha256_hex h (agent_role @ ''|'' @ tool @ ''|'' @ json_dumps h arguments @ ''|'' @ context)"

definition cache_tool_result :: "registry \<Rightarrow> time \<Rightarrow> string \<Rightarrow> string \<Rightarrow> nat \<Rightarrow> registry" where
  "cache_tool_result r now hash_key res timeout =
     r\<lparr>tool_cache := cache_set (tool_cache r) now (tool_cache_key hash_key) res timeout\<rparr>"

definition get_tool_result :: "registry \<Rightarrow> time \<Rightarrow> string \<Rightarrow> string option" where
  "get_tool_result r now hash_key = cache_get (tool_cache r) now (tool_cache_key hash_key)"

text \<open>
  A tool's \<^verbatim>\<open>execute(arguments, runtime)\<close>: it returns a string or raises, and may change
  the runtime it runs against.
\<close>

type_synonym 'rt tool = "arguments \<Rightarrow> 'rt \<Rightarrow> (exn + string) \<times> 'rt"

text \<open>
  What the tool-call step reads and changes: the registry, the runtime, the conversation
  history, and the record of every call of a tool's \<^verbatim>\<open>execute\<close> (name and arguments), in
  order.
\<close>

record 'rt agent_state =
  reg :: registry
  runtime :: 'rt
  executed :: "(string \<times> arguments) list"
  conversation_history :: "AgentMessage list"

definition result_message :: "ToolResult \<Rightarrow> AgentMessage" where
  "result_message tool_res =
     \<lparr>role = ''tool_result'',
      content = (if truthy (tr_result tool_res) then tr_result tool_res else tr_error tool_res),
      tool_calls = None, tool_results = Some [tool_res], metadata = [], usage = None\<rparr>"

text \<open>
  The body of \<^verbatim>\<open>for tc in response.tool_calls\<close> in \<^verbatim>\<open>BaseAgent.run\<close>, at instant \<open>now\<close>, for
  the agent class \<open>class_name\<close> whose \<^verbatim>\<open>get_system_prompt()\<close> returns \<open>system_prompt\<close> at this
  call; \<open>get_tool\<close> is the tool registry's lookup. The test \<^verbatim>\<open>if cached_result\<close> is the
  truthiness of the cached value. \<^verbatim>\<open>except Exception\<close> turns an exception of the tool into a
  failed result; a cancellation leaves the loop.
\<close>

definition run_tool_call :: "hashing \<Rightarrow> (string \<Rightarrow> 'rt tool option) \<Rightarrow> string \<Rightarrow> string \<Rightarrow> time
    \<Rightarrow> ToolCall \<Rightarrow> 'rt agent_state \<Rightarrow> (exn + ToolResult) \<times> 'rt agent_state" where
  "run_tool_call h get_tool class_name system_prompt now tc s =
     (let tool_hash = generate_tool_hash h class_name (tc_name tc) (tc_arguments tc)
                        (take 500 system_prompt);
          cached_result = get_tool_result (reg s) now tool_hash;
          done = (\<lambda>tool_res s'. (Inr tool_res,
                    s'\<lparr>conversation_history := conversation_history s' @ [result_message tool_res]\<rparr>))
      in if truthy cached_result
         then done \<lparr>tool_call_id = tc_id tc, tool_name = tc_name tc, tr_result = cached_result,
                    tr_error = None, success = True\<rparr> s
         else (case get_tool (tc_name tc) of
                 None \<Rightarrow>
                   done \<lparr>tool_call_id = tc_id tc, tool_name = tc_name tc, tr_result = None,
                         tr_error = Some (''Tool '' @ [CHR 0x27] @ tc_name tc @ [CHR 0x27] @ '' not found.''),
                         success = False\<rparr> s
               | Some tool \<Rightarrow>
                   (let (outcome, rt) = tool (tc_arguments tc) (runtime s);
                        s1 = s\<lparr>runtime := rt,
                               executed := executed s @ [(tc_name tc, tc_arguments tc)]\<rparr>
                    in case outcome of
                         Inr res \<Rightarrow>
                           done \<lparr>tool_call_id = tc_id tc, tool_name = tc_name tc,
                                 tr_result = Some res, tr_error = None, success = True\<rparr>
                             (s1\<lparr>reg := cache_tool_result (reg s1) now tool_hash res 3600\<rparr>)
                       | Inl (Exception e) \<Rightarrow>
                           done \<lparr>tool_call_id = tc_id tc, tool_name = tc_name tc,
                                 tr_result = None, tr_error = Some e, success = False\<rparr> s1
                       | Inl CancelledError \<Rightarrow> (Inl CancelledError, s1))))"

section \<open>The orchestrator loop (orchestrator.py)\<close>

text \<open>
  One tool call as the orchestrator stores it in the transcript: id and name as
  \<^verbatim>\<open>get_tc_id\<close> and \<^verbatim>\<open>get_tc_name\<close> read them, the arguments rendered by \<^verbatim>\<open>json.dumps\<close>.
\<close>

record orch_call =
  call_id :: string
  call_name :: string
  call_args :: string

text \<open>
  A transcript entry of \<^verbatim>\<open>CrewOrchestrator._messages\<close>: a dict with the keys \<^verbatim>\<open>role\<close> and
  \<^verbatim>\<open>content\<close>, and optionally \<^verbatim>\<open>tool_calls\<close> or \<^verbatim>\<open>tool_call_id\<close> (\<open>None\<close>: key absent).
\<close>

record message =
  m_role :: string
  m_content :: string
  m_tool_calls :: "orch_call list option"
  m_tool_call_id :: "string option"

text \<open>\<^verbatim>\<open>last_msg.get("tool_calls")\<close> used as a condition: absent key and empty list are falsy.\<close>

definition has_tool_calls :: "message \<Rightarrow> bool" where
  "has_tool_calls m = (case m_tool_calls m of None \<Rightarrow> False | Some tcs \<Rightarrow> tcs \<noteq> [])"

text \<open>
  \<^verbatim>\<open>_cleanup_pending_calls\<close>: the loop inspects the last entry; an assistant entry with tool
  calls and a tool entry are popped and the loop goes on; a user entry is popped and the
  loop stops; anything else stops the loop.
\<close>

function cleanup_pending_calls :: "message list \<Rightarrow> message list" where
  "cleanup_pending_calls ms =
     (if ms = [] then []
      else let last_msg = last ms in
        if m_role last_msg = ''assistant'' \<and> has_tool_calls last_msg
          then cleanup_pending_calls (butlast ms)
        else if m_role last_msg = ''tool'' then cleanup_pending_calls (butlast ms)
        else if m_role last_msg = ''user'' then butlast ms
        else ms)"
  by pat_completeness auto
termination
  by (relation "measure length") auto

declare cleanup_pending_calls.simps [simp del]

text \<open>
  What the crew tools act on: the pool, the registry and the runtime. A crew tool
  (\<^verbatim>\<open>crew_tools.py\<close> is not among the sources) has a name and an \<^verbatim>\<open>execute\<close>.
\<close>

record 'rt world =
  w_pool :: pool
  w_registry :: registry
  w_runtime :: 'rt

record 'rt crew_tool =
  ct_name :: string
  ct_execute :: "arguments \<Rightarrow> 'rt world \<Rightarrow> (exn + string) \<times> 'rt world"

text \<open>
  The orchestrator's transcript, its \<^verbatim>\<open>final_report\<close>, the world, and the updates it has
  yielded, each a phase and its text (token updates are left out).
\<close>

record 'rt orch_state =
  o_messages :: "message list"
  o_final_report :: string
  o_world :: "'rt world"
  o_updates :: "(string \<times> string) list"

text \<open>The dict that \<^verbatim>\<open>execute_tool_call\<close> returns; \<open>x_error\<close> is \<^verbatim>\<open>res.get("error")\<close>.\<close>

record tool_res =
  x_role :: string
  x_tool_call_id :: string
  x_content :: string
  x_tool_name :: string
  x_error :: bool

text \<open>
  \<^verbatim>\<open>execute_tool_call\<close>, run as one step: an unknown tool and an exception of the tool give
  an error result; a cancellation is not caught.
\<close>

definition execute_tool_call :: "'rt crew_tool list \<Rightarrow> ToolCall \<Rightarrow> 'rt world
    \<Rightarrow> (exn + tool_res) \<times> 'rt world" where
  "execute_tool_call crew_tools tc w =
     (case find (\<lambda>t. ct_name t = tc_name tc) crew_tools of
        None \<Rightarrow>
          (Inr \<lparr>x_role = ''tool'', x_tool_call_id = tc_id tc,
                x_content = ''Unknown tool: '' @ tc_name tc, x_tool_name = tc_name tc,
                x_error = True\<rparr>, w)
      | Some tool \<Rightarrow>
          (case ct_execute tool (tc_arguments tc) w of
             (Inr res, w') \<Rightarrow>
               (Inr \<lparr>x_role = ''tool'', x_tool_call_id = tc_id tc, x_content = res,
                     x_tool_name = tc_name tc, x_error = False\<rparr>, w')
           | (Inl (Exception e), w') \<Rightarrow>
               (Inr \<lparr>x_role = ''tool'', x_tool_call_id = tc_id tc, x_content = ''Error: '' @ e,
                     x_tool_name = tc_name tc, x_error = True\<rparr>, w')
           | (Inl CancelledError, w') \<Rightarrow> (Inl CancelledError, w')))"

text \<open>
  \<^verbatim>\<open>asyncio.gather\<close> over the calls of one turn. The executions complete in the order
  \<open>schedule\<close> (positions in the request list), each acting on the world the earlier ones
  left; the result of the call at position \<open>i\<close> is put in slot \<open>i\<close>, which is the order in
  which \<^verbatim>\<open>gather\<close> returns its results. \<open>None\<close>: some call has not completed.
\<close>

fun run_schedule :: "'rt crew_tool list \<Rightarrow> ToolCall list \<Rightarrow> nat list \<Rightarrow> tool_res option list
    \<Rightarrow> 'rt world \<Rightarrow> exn + (tool_res option list \<times> 'rt world)" where
  "run_schedule crew_tools tcs [] slots w = Inr (slots, w)"
| "run_schedule crew_tools tcs (i # rest) slots w =
     (if i < length tcs
      then (case execute_tool_call crew_tools (tcs ! i) w of
              (Inl e, w') \<Rightarrow> Inl e
            | (Inr res, w') \<Rightarrow> run_schedule crew_tools tcs rest (slots[i := Some res]) w')
      else run_schedule crew_tools tcs rest slots w)"

definition gather :: "'rt crew_tool list \<Rightarrow> ToolCall list \<Rightarrow> nat list \<Rightarrow> 'rt world
    \<Rightarrow> (exn + (tool_res list \<times> 'rt world)) option" where
  "gather crew_tools tcs schedule w =
     (case run_schedule crew_tools tcs schedule (replicate (length tcs) None) w of
        Inl e \<Rightarrow> Some (Inl e)
      | Inr (slots, w') \<Rightarrow>
          (case those slots of None \<Rightarrow> None | Some ress \<Rightarrow> Some (Inr (ress, w'))))"

text \<open>The body of \<^verbatim>\<open>for res in tool_results\<close>: the tool-result turn is appended, and a
  \<^verbatim>\<open>finish\<close> result without error becomes the report.\<close>

definition tool_turn :: "tool_res \<Rightarrow> message" where
  "tool_turn res =
     \<lparr>m_role = x_role res, m_content = x_content res, m_tool_calls = None,
      m_tool_call_id = Some (x_tool_call_id res)\<rparr>"

definition append_result :: "tool_res \<Rightarrow> 'rt orch_state \<Rightarrow> 'rt orch_state" where
  "append_result res st =
     st\<lparr>o_messages := o_messages st @ [tool_turn res],
        o_final_report := (if x_tool_name res = ''finish'' \<and> \<not> x_error res then x_content res
                           else o_final_report st)\<rparr>"

text \<open>\<^verbatim>\<open>response.content or ""\<close>\<close>

definition completion_text :: "string option \<Rightarrow> string" where
  "completion_text rcontent = (case rcontent of None \<Rightarrow> [] | Some x \<Rightarrow> x)"

definition stored_call :: "(arguments \<Rightarrow> string) \<Rightarrow> ToolCall \<Rightarrow> orch_call" where
  "stored_call dumps tc =
     \<lparr>call_id = tc_id tc, call_name = tc_name tc, call_args = dumps (tc_arguments tc)\<rparr>"

definition assistant_text :: "string \<Rightarrow> message" where
  "assistant_text c =
     \<lparr>m_role = ''assistant'', m_content = c, m_tool_calls = None, m_tool_call_id = None\<rparr>"

text \<open>
  The branch \<^verbatim>\<open>if response.tool_calls\<close> of \<^verbatim>\<open>run\<close> for the calls \<open>tcs\<close> of one completion with
  text \<open>rcontent\<close>. \<open>Some (Inl e)\<close>: an exception left the branch.
\<close>

definition tool_calls_branch :: "(arguments \<Rightarrow> string) \<Rightarrow> 'rt crew_tool list \<Rightarrow> string option
    \<Rightarrow> ToolCall list \<Rightarrow> nat list \<Rightarrow> 'rt orch_state \<Rightarrow> (exn + 'rt orch_state) option" where
  "tool_calls_branch dumps crew_tools rcontent tcs schedule st =
     (let c = completion_text rcontent;
          st1 = (if c \<noteq> []
                 then st\<lparr>o_updates := o_updates st @ [(''thinking'', c)],
                         o_messages := o_messages st @ [assistant_text c]\<rparr>
                 else st);
          st2 = st1\<lparr>o_messages := o_messages st1 @
                   [\<lparr>m_role = ''assistant'', m_content = c,
                     m_tool_calls = Some (map (stored_call dumps) tcs), m_tool_call_id = None\<rparr>]\<rparr>
      in case gather crew_tools tcs schedule (o_world st2) of
           None \<Rightarrow> None
         | Some (Inl e) \<Rightarrow> Some (Inl e)
         | Some (Inr (ress, w')) \<Rightarrow> Some (Inr (fold append_result ress (st2\<lparr>o_world := w'\<rparr>))))"

text \<open>
  The \<^verbatim>\<open>else\<close> branch of \<^verbatim>\<open>run\<close> (a completion with no tool calls) at instant \<open>now\<close>; the pool
  object is the one \<^verbatim>\<open>run\<close> has just constructed, so \<^verbatim>\<open>self.pool\<close> is truthy and the condition
  is whether \<^verbatim>\<open>get_workers()\<close>, which reads the registry, returns a non-empty list. An
  exception of \<^verbatim>\<open>finish\<close> is reported and leaves the report as it was.
\<close>

definition no_tool_calls_branch :: "'rt crew_tool list \<Rightarrow> time \<Rightarrow> string option \<Rightarrow> 'rt orch_state
    \<Rightarrow> exn + 'rt orch_state" where
  "no_tool_calls_branch crew_tools now rcontent st =
     (let c = completion_text rcontent;
          st1 = (if c \<noteq> [] then st\<lparr>o_messages := o_messages st @ [assistant_text c]\<rparr> else st);
          w = o_world st1
      in case get_workers (w_pool w) (w_registry w) now of
           Inl e \<Rightarrow> Inl e
         | Inr ws \<Rightarrow>
             if ws \<noteq> [] then
               (let st2 = st1\<lparr>o_updates := o_updates st1 @ [(''thinking'', c)]\<rparr>
                in case find (\<lambda>t. ct_name t = ''finish'') crew_tools of
                     None \<Rightarrow> Inr (st2\<lparr>o_final_report := c\<rparr>)
                   | Some finish_tool \<Rightarrow>
                       (case ct_execute finish_tool [''context'' \<mapsto> JStr c] w of
                          (Inr report, w') \<Rightarrow> Inr (st2\<lparr>o_final_report := report, o_world := w'\<rparr>)
                        | (Inl (Exception e), w') \<Rightarrow>
                            Inr (st2\<lparr>o_updates := o_updates st2 @
                                       [(''error'', ''Auto-finish failed: '' @ e)],
                                     o_world := w'\<rparr>)
                        | (Inl CancelledError, w') \<Rightarrow> Inl CancelledError))
             else Inr (st1\<lparr>o_final_report := c\<rparr>))"


definition terminal_value :: "string \<Rightarrow> bool" where
  "terminal_value s = (case status_of_value s of Inl _ \<Rightarrow> False | Inr st \<Rightarrow> terminal st)"


section \<open>Example inputs\<close>

definition ex_system :: message where
  "ex_system = \<lparr>m_role = ''system'', m_content = ''brief'', m_tool_calls = None,
     m_tool_call_id = None\<rparr>"

definition ex_user :: message where
  "ex_user = \<lparr>m_role = ''user'', m_content = ''Task: scan'', m_tool_calls = None,
     m_tool_call_id = None\<rparr>"

definition ex_assistant :: message where
  "ex_assistant = \<lparr>m_role = ''assistant'', m_content = [],
     m_tool_calls = Some [\<lparr>call_id = ''c1'', call_name = ''spawn'', call_args = ''{}''\<rparr>,
                          \<lparr>call_id = ''c2'', call_name = ''spawn'', call_args = ''{}''\<rparr>],
     m_tool_call_id = None\<rparr>"

definition ex_tool :: "string \<Rightarrow> message" where
  "ex_tool i = \<lparr>m_role = ''tool'', m_content = ''ok'', m_tool_calls = None,
     m_tool_call_id = Some i\<rparr>"

text \<open>A worker as \<^verbatim>\<open>spawn\<close> creates it, and runs of it.\<close>

definition ex_worker :: AgentWorker where
  "ex_worker = new_worker ''agent-0'' ''scan A'' 1 None"

definition ex_response :: "string \<Rightarrow> (string \<times> bool) list \<Rightarrow> AgentMessage" where
  "ex_response c md = \<lparr>role = ''assistant'', content = Some c, tool_calls = None,
     tool_results = None, metadata = md, usage = None\<rparr>"

definition ex_env :: "(string \<times> bool) list \<Rightarrow> run_env" where
  "ex_env md = \<lparr>e_now_start = 10, e_start = None,
     e_responses = [(20, ex_response ''report'' md)], e_loop_end = None, e_plan = None,
     e_now_end = 30, e_stop = None\<rparr>"



text \<open>
  A session on project 7: two workers are spawned, at instants 0 and 5, and both run to
  their end.
\<close>

definition ex_spawned :: "pool \<times> registry" where
  "ex_spawned =
     (let (a, p1, r1) = spawn (new_pool 7) empty_registry 0 ''scan A'' 1 None;
          (b, p2, r2) = spawn p1 r1 5 ''scan B'' 1 None
      in (p2, r2))"

definition ex_settled :: "pool \<times> registry" where
  "ex_settled =
     run_task (ex_env []) (new_worker ''agent-1'' ''scan B'' 1 None)
       (run_task (ex_env []) (new_worker ''agent-0'' ''scan A'' 1 None) ex_spawned)"

text \<open>
  Tools for the tool-call step, acting on a runtime that counts executions: \<^verbatim>\<open>scan\<close> returns
  a report, \<^verbatim>\<open>quiet\<close> succeeds with empty output, \<^verbatim>\<open>flaky\<close> raises. The example digest is the
  identity and the rendering of the arguments reads their \<^verbatim>\<open>target\<close>.
\<close>

definition ex_hashing :: hashing where
  "ex_hashing = \<lparr>json_dumps = (\<lambda>args. case args ''target'' of Some (JStr s) \<Rightarrow> s | _ \<Rightarrow> ''{}''),
                  sha256_hex = (\<lambda>s. s)\<rparr>"

definition ex_get_tool :: "string \<Rightarrow> nat tool option" where
  "ex_get_tool name =
     (if name = ''scan'' then Some (\<lambda>args rt. (Inr ''open ports: 80'', Suc rt))
      else if name = ''quiet'' then Some (\<lambda>args rt. (Inr [], Suc rt))
      else if name = ''flaky'' then Some (\<lambda>args rt. (Inl (Exception ''boom''), Suc rt))
      else None)"

definition ex_call :: "string \<Rightarrow> string \<Rightarrow> ToolCall" where
  "ex_call i name = \<lparr>tc_id = i, tc_name = name, tc_arguments = [''target'' \<mapsto> JStr ''host'']\<rparr>"

definition ex_state :: "nat agent_state" where
  "ex_state = \<lparr>reg = empty_registry, runtime = 0, executed = [], conversation_history = []\<rparr>"

text \<open>Two calls of the same tool with the same arguments, at instants 0 and 1, by the same
  agent class under the same prompt.\<close>

definition ex_twice :: "string \<Rightarrow> nat agent_state" where
  "ex_twice name =
     snd (run_tool_call ex_hashing ex_get_tool ''ReconAgentAgent'' ''You are an agent.'' 1
            (ex_call ''call-2'' name)
            (snd (run_tool_call ex_hashing ex_get_tool ''ReconAgentAgent'' ''You are an agent.'' 0
                    (ex_call ''call-1'' name) ex_state)))"

text \<open>
  Crew tools over a runtime that counts executions: \<^verbatim>\<open>probe\<close> returns a mark for the number
  of executions before it, \<^verbatim>\<open>finish\<close> returns a report. Three calls of \<^verbatim>\<open>probe\<close> requested in
  one turn.
\<close>

definition ex_crew_tools :: "nat crew_tool list" where
  "ex_crew_tools =
     [\<lparr>ct_name = ''probe'',
       ct_execute = (\<lambda>args w. (Inr (replicate (w_runtime w) CHR ''*''), w\<lparr>w_runtime := Suc (w_runtime w)\<rparr>))\<rparr>,
      \<lparr>ct_name = ''finish'', ct_execute = (\<lambda>args w. (Inr ''REPORT'', w))\<rparr>]"

definition ex_calls :: "ToolCall list" where
  "ex_calls = [\<lparr>tc_id = ''T1'', tc_name = ''probe'', tc_arguments = Map.empty\<rparr>,
               \<lparr>tc_id = ''T2'', tc_name = ''probe'', tc_arguments = Map.empty\<rparr>,
               \<lparr>tc_id = ''T3'', tc_name = ''probe'', tc_arguments = Map.empty\<rparr>]"

definition ex_orch :: "pool \<Rightarrow> registry \<Rightarrow> nat orch_state" where
  "ex_orch p r = \<lparr>o_messages = [ex_user], o_final_report = [],
     o_world = \<lparr>w_pool = p, w_registry = r, w_runtime = 0\<rparr>, o_updates = []\<rparr>"

section \<open>Transcript repair\<close>

lemma cleanup_snoc:
  "cleanup_pending_calls (ms @ [m]) =
     (if m_role m = ''assistant'' \<and> has_tool_calls m then cleanup_pending_calls ms
      else if m_role m = ''tool'' then cleanup_pending_calls ms
      else if m_role m = ''user'' then ms
      else ms @ [m])"
  by (subst cleanup_pending_calls.simps) (simp add: Let_def)

text \<open>
  C6 (amended). On a transcript ending in user, assistant(tool_calls), tool, tool the repair
  removes the three trailing turns and the user turn before them as well, and leaves every
  turn before that user turn unchanged.
\<close>

theorem cleanup_removes_pending_and_user:
  assumes "m_role u = ''user''"
    and "m_role a = ''assistant''" and "has_tool_calls a"
    and "m_role t1 = ''tool''" and "m_role t2 = ''tool''"
  shows "cleanup_pending_calls (pre @ [u, a, t1, t2]) = pre"
proof -
  have "cleanup_pending_calls (pre @ [u, a, t1, t2])
      = cleanup_pending_calls (((pre @ [u]) @ [a]) @ [t1])"
    using cleanup_snoc [of "pre @ [u, a, t1]" t2] assms(5) by simp
  also have "\<dots> = cleanup_pending_calls ((pre @ [u]) @ [a])"
    using cleanup_snoc [of "(pre @ [u]) @ [a]" t1] assms(4) by simp
  also have "\<dots> = cleanup_pending_calls (pre @ [u])"
    using cleanup_snoc [of "pre @ [u]" a] assms(2,3) by simp
  also have "\<dots> = pre"
    using cleanup_snoc [of pre u] assms(1) by simp
  finally show ?thesis .
qed

theorem cleanup_removes_pending_and_user_witness:
  "cleanup_pending_calls ([ex_system] @ [ex_user, ex_assistant, ex_tool ''c1'', ex_tool ''c2''])
     = [ex_system]"
  by (rule cleanup_removes_pending_and_user)
     (simp_all add: ex_user_def ex_assistant_def ex_tool_def has_tool_calls_def)

text \<open>
  C6 as stated (the user turn is kept) fails: from system, user, assistant(tool_calls),
  tool, tool the repair leaves the system turn alone, not system and user.
\<close>

theorem cleanup_keeps_user_counterexample:
  "cleanup_pending_calls [ex_system, ex_user, ex_assistant, ex_tool ''c1'', ex_tool ''c2'']
     \<noteq> [ex_system, ex_user]"
proof -
  have "cleanup_pending_calls [ex_system, ex_user, ex_assistant, ex_tool ''c1'', ex_tool ''c2'']
      = [ex_system]"
    using cleanup_snoc [of "[ex_system, ex_user, ex_assistant, ex_tool ''c1'']" "ex_tool ''c2''"]
      cleanup_snoc [of "[ex_system, ex_user, ex_assistant]" "ex_tool ''c1''"]
      cleanup_snoc [of "[ex_system, ex_user]" ex_assistant]
      cleanup_snoc [of "[ex_system]" ex_user]
    by (simp add: ex_user_def ex_assistant_def ex_tool_def has_tool_calls_def)
  then show ?thesis by simp
qed

section \<open>Running one worker\<close>

lemma fold_note_tool: "status (fold note_tool tcs w) = status w \<and> wid (fold note_tool tcs w) = wid w"
  by (induction tcs arbitrary: w) (auto simp: note_tool_def)

lemma track_tools_status [simp]: "status (track_tools w r) = status w"
  by (simp add: track_tools_def fold_note_tool split: option.splits)

lemma track_tools_wid [simp]: "wid (track_tools w r) = wid w"
  by (simp add: track_tools_def fold_note_tool split: option.splits)





lemma try_body_normal_complete:
  "e_loop_end env = None \<Longrightarrow> status (r_worker (try_body env w ws)) = COMPLETE"
  by (simp add: try_body_def Let_def)



lemma terminal_value_simps [simp]:
  "terminal_value ''pending'' = False" "terminal_value ''running'' = False"
  "terminal_value ''complete'' = True" "terminal_value ''error'' = True"
  by (simp_all add: terminal_value_def status_of_value_def)





lemma finally_stop_writes [simp]: "r_writes (finally_stop env res) = r_writes res"
  by (simp add: finally_stop_def split: option.splits exn.splits)

lemma finally_stop_worker [simp]: "r_worker (finally_stop env res) = r_worker res"
  by (simp add: finally_stop_def split: option.splits exn.splits)







text \<open>
  C2 fails on the code. A worker whose loop reports \<^verbatim>\<open>replan_impossible\<close> has the flag
  \<open>is_infeasible\<close> set and ends \<^verbatim>\<open>COMPLETE\<close>, not \<^verbatim>\<open>FAILED\<close>; one whose loop reports
  \<^verbatim>\<open>max_iterations_reached\<close> has \<open>hit_max_iterations\<close> set and ends \<^verbatim>\<open>COMPLETE\<close>, not
  \<^verbatim>\<open>WARNING\<close>.
\<close>

theorem flagged_worker_ends_complete:
  "is_infeasible (run_loop (ex_env [(''replan_impossible'', True)]) ex_worker [])
   \<and> map_option (\<lambda>r. status (r_worker r))
        (run_worker [] (ex_env [(''replan_impossible'', True)]) ex_worker) = Some COMPLETE
   \<and> hit_max_iterations (run_loop (ex_env [(''max_iterations_reached'', True)]) ex_worker [])
   \<and> map_option (\<lambda>r. status (r_worker r))
        (run_worker [] (ex_env [(''max_iterations_reached'', True)]) ex_worker) = Some COMPLETE"
  by (simp add: run_worker_def ex_env_def ex_worker_def new_worker_def finally_stop_def
       try_body_def run_loop_def loop_step_def meta_flag_def ex_response_def Let_def)

section \<open>Registry, waiting and resetting\<close>

lemma str_nat_0: "str_nat 0 = ''0''"
  by (subst str_nat.simps) simp

lemma worker_key_inj [simp]: "worker_key p a = worker_key p b \<longleftrightarrow> a = b"
  by (simp add: worker_key_def gen_key_def)

lemma worker_key_neq_list_key: "worker_key p a \<noteq> worker_list_key q"
  by (simp add: worker_key_def worker_list_key_def gen_key_def)

lemma worker_key_neq_tool_key: "worker_key p a \<noteq> tool_cache_key h"
  by (simp add: worker_key_def tool_cache_key_def gen_key_def)

lemma list_key_neq_tool_key: "worker_list_key p \<noteq> tool_cache_key h"
  by (simp add: worker_list_key_def tool_cache_key_def gen_key_def)








lemma status_of_value_value [simp]: "status_of_value (status_value st) = Inr st"
  by (cases st) (simp_all add: status_of_value_def)

lemma from_dict_to_dict [simp]: "from_dict (to_dict w) = Inr w"
  by (cases w) (simp add: from_dict_def to_dict_def)







text \<open>A spawned worker is in the task table and, for 3600 seconds, in the registry.\<close>

lemma set_worker_get:
  "t < now + timeout \<Longrightarrow> get_worker (set_worker r now pid w d timeout) t pid w = Some d"
  by (simp add: set_worker_def get_worker_def cache_get_def cache_set_def Let_def)

lemma spawn_tracks_and_registers:
  assumes "spawn p r now tsk prio deps = (worker_id, p', r')" and "t < now + 3600"
  shows "fst ` set (tasks p') = insert worker_id (fst ` set (tasks p))"
    and "project_id p' = project_id p"
    and "get_worker r' t (project_id p) worker_id = Some (to_dict (new_worker worker_id tsk prio deps))"
proof -
  have p': "p' = p\<lparr>next_id := next_id p + 1, tasks := AList.update worker_id Unsettled (tasks p)\<rparr>"
    and r': "r' = set_worker r now (project_id p) worker_id
                    (to_dict (new_worker worker_id tsk prio deps)) 3600"
    using assms(1) by (auto simp: spawn_def generate_id_def Let_def)
  show "fst ` set (tasks p') = insert worker_id (fst ` set (tasks p))"
    by (simp add: p' dom_update)
  show "project_id p' = project_id p" by (simp add: p')
  show "get_worker r' t (project_id p) worker_id = Some (to_dict (new_worker worker_id tsk prio deps))"
    using assms(2) by (simp add: r' set_worker_get)
qed


lemma wait_for_no_tasks: "tasks p = [] \<Longrightarrow> wait_for p r now None = Some (Inr [])"
  by (simp add: wait_for_def)


lemma str_nat_digits [simp]: "str_nat 1 = ''1''" "str_nat (Suc 0) = ''1''"
  by (subst str_nat.simps, simp)+

lemma str_int_7 [simp]: "str_int 7 = ''7''"
  by (simp add: str_int_def, subst str_nat.simps, simp)

lemmas ex_session_defs = ex_settled_def run_task_def ex_spawned_def spawn_def generate_id_def
  new_pool_def Let_def run_worker_def new_worker_def ex_env_def finally_stop_def try_body_def
  settle_def split_def run_loop_def loop_step_def track_tools_def ex_response_def str_nat_0
  apply_writes_def set_worker_def current_list_def cache_get_def cache_set_def empty_registry_def
  worker_key_def worker_list_key_def gen_key_def to_dict_def worker_result_def plan_summary_def
  truthy_def


lemma ex_settled_project: "project_id (fst ex_settled) = 7"
  by (simp add: ex_session_defs)

lemma ex_settled_record_0:
  "get_worker (snd ex_settled) 40 7 ''agent-0'' =
     Some (to_dict \<lparr>wid = ''agent-0'', task = ''scan A'', status = COMPLETE, priority = 1,
       depends_on = [], result = Some ''report'', error = None, tools_used = [],
       started_at = Some 10, completed_at = Some 30\<rparr>)"
  by (simp add: get_worker_def ex_session_defs)

lemma ex_settled_record_1:
  "get_worker (snd ex_settled) 40 7 ''agent-1'' =
     Some (to_dict \<lparr>wid = ''agent-1'', task = ''scan B'', status = COMPLETE, priority = 1,
       depends_on = [], result = Some ''report'', error = None, tools_used = [],
       started_at = Some 10, completed_at = Some 30\<rparr>)"
  by (simp add: get_worker_def ex_session_defs)

lemma ex_settled_list: "current_list (snd ex_settled) 40 7 = [''agent-0'', ''agent-1'']"
  by (simp add: ex_session_defs)




section \<open>The tool-result cache\<close>


lemma run_tool_call_miss_success:
  assumes "\<not> truthy (get_tool_result (reg s) now
             (generate_tool_hash h cls (tc_name tc) (tc_arguments tc) (take 500 prompt)))"
    and "get_tool (tc_name tc) = Some tool"
    and "tool (tc_arguments tc) (runtime s) = (Inr out, rt)"
  shows "run_tool_call h get_tool cls prompt now tc s =
     (Inr \<lparr>tool_call_id = tc_id tc, tool_name = tc_name tc, tr_result = Some out,
            tr_error = None, success = True\<rparr>,
      s\<lparr>runtime := rt,
        executed := executed s @ [(tc_name tc, tc_arguments tc)],
        reg := cache_tool_result (reg s) now
                 (generate_tool_hash h cls (tc_name tc) (tc_arguments tc) (take 500 prompt)) out 3600,
        conversation_history := conversation_history s @
           [result_message \<lparr>tool_call_id = tc_id tc, tool_name = tc_name tc, tr_result = Some out,
              tr_error = None, success = True\<rparr>]\<rparr>)"
  using assms by (simp add: run_tool_call_def Let_def)

lemma cached_after_write:
  "t < now + timeout \<Longrightarrow> get_tool_result (cache_tool_result r now k out timeout) t k = Some out"
  by (simp add: get_tool_result_def cache_tool_result_def cache_get_def cache_set_def)


text \<open>
  C10. When the value cached under a call's key is the empty string, the call is treated as
  a miss although the entry is live: the tool is executed again, and its output is cached
  again (the empty string once more, when the output is empty).
\<close>

theorem empty_cached_value_is_a_miss:
  assumes "get_tool_result (reg s) now
             (generate_tool_hash h cls (tc_name tc) (tc_arguments tc) (take 500 prompt)) = Some []"
    and "get_tool (tc_name tc) = Some tool"
    and "tool (tc_arguments tc) (runtime s) = (Inr out, rt)"
  shows "\<exists>s'. run_tool_call h get_tool cls prompt now tc s =
            (Inr \<lparr>tool_call_id = tc_id tc, tool_name = tc_name tc, tr_result = Some out,
                   tr_error = None, success = True\<rparr>, s')
     \<and> executed s' = executed s @ [(tc_name tc, tc_arguments tc)]
     \<and> runtime s' = rt
     \<and> get_tool_result (reg s') now
          (generate_tool_hash h cls (tc_name tc) (tc_arguments tc) (take 500 prompt)) = Some out"
proof -
  have "\<not> truthy (get_tool_result (reg s) now
             (generate_tool_hash h cls (tc_name tc) (tc_arguments tc) (take 500 prompt)))"
    using assms(1) by (simp add: truthy_def)
  from run_tool_call_miss_success [where get_tool = get_tool and tool = tool, OF this assms(2,3)]
  show ?thesis by (simp add: cached_after_write)
qed


lemmas ex_call_defs = ex_twice_def run_tool_call_def ex_hashing_def ex_get_tool_def ex_call_def
  ex_state_def empty_registry_def generate_tool_hash_def get_tool_result_def cache_tool_result_def
  cache_get_def cache_set_def tool_cache_key_def gen_key_def truthy_def Let_def




theorem empty_cached_value_is_a_miss_witness:
  "get_tool_result (reg (snd (run_tool_call ex_hashing ex_get_tool ''ReconAgentAgent''
       ''You are an agent.'' 0 (ex_call ''call-1'' ''quiet'') ex_state))) 1
     ''ReconAgentAgent|quiet|host|You are an agent.'' = Some []
   \<and> map fst (executed (ex_twice ''quiet'')) = [''quiet'', ''quiet'']
   \<and> get_tool_result (reg (ex_twice ''quiet'')) 1
        ''ReconAgentAgent|quiet|host|You are an agent.'' = Some []"
proof -
  let ?s1 = "snd (run_tool_call ex_hashing ex_get_tool ''ReconAgentAgent'' ''You are an agent.'' 0
     (ex_call ''call-1'' ''quiet'') ex_state)"
  let ?tc = "ex_call ''call-2'' ''quiet''"
  have k: "generate_tool_hash ex_hashing ''ReconAgentAgent'' (tc_name ?tc) (tc_arguments ?tc)
      (take 500 ''You are an agent.'') = ''ReconAgentAgent|quiet|host|You are an agent.''"
    by (simp add: generate_tool_hash_def ex_hashing_def ex_call_def)
  have c: "get_tool_result (reg ?s1) 1 ''ReconAgentAgent|quiet|host|You are an agent.'' = Some []"
    by (simp add: ex_call_defs)
  have e1: "map fst (executed ?s1) = [''quiet'']"
    by (simp add: ex_call_defs)
  have tool: "ex_get_tool (tc_name ?tc) = Some (\<lambda>args rt. (Inr [], Suc rt))"
    by (simp add: ex_get_tool_def ex_call_def)
  have exec: "(\<lambda>args rt. (Inr [], Suc rt)) (tc_arguments ?tc) (runtime ?s1)
      = (Inr [], Suc (runtime ?s1))"
    by simp
  from empty_cached_value_is_a_miss [where get_tool = ex_get_tool and s = ?s1 and now = 1
      and h = ex_hashing and cls = "''ReconAgentAgent''" and prompt = "''You are an agent.''"
      and tc = ?tc, OF c [folded k] tool exec]
  obtain s' where
    1: "snd (run_tool_call ex_hashing ex_get_tool ''ReconAgentAgent'' ''You are an agent.'' 1 ?tc ?s1) = s'"
    and 2: "executed s' = executed ?s1 @ [(tc_name ?tc, tc_arguments ?tc)]"
    and 3: "get_tool_result (reg s') 1
        (generate_tool_hash ex_hashing ''ReconAgentAgent'' (tc_name ?tc) (tc_arguments ?tc)
          (take 500 ''You are an agent.'')) = Some []"
    by auto
  have "ex_twice ''quiet'' = s'"
    using 1 by (simp add: ex_twice_def)
  then show ?thesis
    using c e1 2 3 [unfolded k] by (simp add: ex_call_def)
qed

section \<open>The orchestrator's fan-out and fan-in\<close>

lemma execute_tool_call_id:
  "execute_tool_call cts tc w = (Inr res, w') \<Longrightarrow>
     x_tool_call_id res = tc_id tc \<and> x_role res = ''tool''"
  by (auto simp: execute_tool_call_def split: option.splits prod.splits sum.splits exn.splits)

lemma run_schedule_slots:
  assumes "run_schedule cts tcs sched slots w = Inr (slots', w')"
    and "length slots = length tcs"
    and "\<forall>i < length tcs. \<forall>res. slots ! i = Some res \<longrightarrow>
           x_tool_call_id res = tc_id (tcs ! i) \<and> x_role res = ''tool''"
  shows "length slots' = length tcs
     \<and> (\<forall>i < length tcs. \<forall>res. slots' ! i = Some res \<longrightarrow>
           x_tool_call_id res = tc_id (tcs ! i) \<and> x_role res = ''tool'')
     \<and> (\<forall>i < length tcs. slots ! i \<noteq> None \<or> i \<in> set sched \<longrightarrow> slots' ! i \<noteq> None)"
  using assms
proof (induction sched arbitrary: slots w)
  case Nil
  then show ?case by simp
next
  case (Cons i rest)
  show ?case
  proof (cases "i < length tcs")
    case False
    then have "run_schedule cts tcs rest slots w = Inr (slots', w')"
      using Cons.prems(1) by simp
    from Cons.IH [OF this Cons.prems(2,3)] False show ?thesis by auto
  next
    case True
    obtain out w1 where ex: "execute_tool_call cts (tcs ! i) w = (out, w1)"
      by (cases "execute_tool_call cts (tcs ! i) w")
    with Cons.prems(1) True obtain res where out: "out = Inr res"
      by (cases out) auto
    let ?slots = "slots[i := Some res]"
    have run: "run_schedule cts tcs rest ?slots w1 = Inr (slots', w')"
      using Cons.prems(1) True ex out by simp
    have len: "length ?slots = length tcs" using Cons.prems(2) by simp
    have good: "\<forall>j < length tcs. \<forall>r. ?slots ! j = Some r \<longrightarrow>
           x_tool_call_id r = tc_id (tcs ! j) \<and> x_role r = ''tool''"
    proof (intro allI impI)
      fix j r
      assume j: "j < length tcs" and r: "?slots ! j = Some r"
      show "x_tool_call_id r = tc_id (tcs ! j) \<and> x_role r = ''tool''"
      proof (cases "j = i")
        case True
        then have "r = res" using r True Cons.prems(2) j by simp
        then show ?thesis
          using execute_tool_call_id [OF ex [unfolded out]] True by simp
      next
        case False
        then have "slots ! j = Some r" using r by simp
        then show ?thesis using Cons.prems(3) j by blast
      qed
    qed
    from Cons.IH [OF run len good]
    have ih: "length slots' = length tcs"
      "\<forall>j < length tcs. \<forall>r. slots' ! j = Some r \<longrightarrow>
           x_tool_call_id r = tc_id (tcs ! j) \<and> x_role r = ''tool''"
      "\<forall>j < length tcs. ?slots ! j \<noteq> None \<or> j \<in> set rest \<longrightarrow> slots' ! j \<noteq> None"
      by auto
    have "\<forall>j < length tcs. slots ! j \<noteq> None \<or> j \<in> set (i # rest) \<longrightarrow> slots' ! j \<noteq> None"
    proof (intro allI impI)
      fix j
      assume j: "j < length tcs" and h: "slots ! j \<noteq> None \<or> j \<in> set (i # rest)"
      have "?slots ! j \<noteq> None \<or> j \<in> set rest"
      proof (cases "j = i")
        case True
        then show ?thesis using Cons.prems(2) j by simp
      next
        case False
        then show ?thesis using h by simp
      qed
      then show "slots' ! j \<noteq> None" using ih(3) j by blast
    qed
    then show ?thesis using ih(1,2) by blast
  qed
qed

lemma those_all_Some:
  "\<forall>x \<in> set xs. x \<noteq> None \<Longrightarrow> \<exists>ys. those xs = Some ys \<and> length ys = length xs
      \<and> (\<forall>i < length xs. xs ! i = Some (ys ! i))"
proof (induction xs)
  case Nil
  then show ?case by simp
next
  case (Cons x xs)
  then obtain ys where ys: "those xs = Some ys" "length ys = length xs"
    "\<forall>i < length xs. xs ! i = Some (ys ! i)" by auto
  from Cons.prems obtain y where y: "x = Some y" by auto
  have "\<forall>i < length (x # xs). (x # xs) ! i = Some ((y # ys) ! i)"
    using ys(3) y by (auto simp: nth_Cons split: nat.splits)
  then show ?case using ys y by auto
qed

lemma those_Some_nth:
  "those xs = Some ys \<Longrightarrow> length ys = length xs \<and> (\<forall>i < length xs. xs ! i = Some (ys ! i))"
proof (induction xs arbitrary: ys)
  case Nil
  then show ?case by simp
next
  case (Cons x xs)
  then show ?case
    by (auto simp: nth_Cons split: option.splits nat.splits)
qed

lemma gather_order:
  assumes "gather cts tcs sched w = Some (Inr (ress, w'))"
  shows "length ress = length tcs
     \<and> (\<forall>i < length tcs. x_tool_call_id (ress ! i) = tc_id (tcs ! i) \<and> x_role (ress ! i) = ''tool'')"
proof -
  from assms obtain slots where
    run: "run_schedule cts tcs sched (replicate (length tcs) None) w = Inr (slots, w')"
    and th: "those slots = Some ress"
    by (auto simp: gather_def split: sum.splits prod.splits option.splits)
  from run_schedule_slots [OF run] have
    len: "length slots = length tcs"
    and good: "\<forall>i < length tcs. \<forall>res. slots ! i = Some res \<longrightarrow>
           x_tool_call_id res = tc_id (tcs ! i) \<and> x_role res = ''tool''"
    by auto
  from those_Some_nth [OF th] len good show ?thesis by auto
qed

lemma gather_settles:
  assumes "{..<length tcs} \<subseteq> set sched"
  shows "gather cts tcs sched w \<noteq> None"
proof (cases "run_schedule cts tcs sched (replicate (length tcs) None) w")
  case (Inl e)
  then show ?thesis by (simp add: gather_def)
next
  case (Inr a)
  obtain slots w' where a: "a = (slots, w')" by (cases a)
  from run_schedule_slots [OF Inr [unfolded a]] assms have
    "length slots = length tcs" "\<forall>i < length tcs. slots ! i \<noteq> None"
    by auto
  then have "\<forall>x \<in> set slots. x \<noteq> None" by (auto simp: in_set_conv_nth)
  from those_all_Some [OF this] show ?thesis
    using Inr a by (auto simp: gather_def)
qed

lemma fold_append_result_messages:
  "o_messages (fold append_result ress st) = o_messages st @ map tool_turn ress"
  by (induction ress arbitrary: st) (simp_all add: append_result_def)


text \<open>
  C4. When every execution of the turn's calls completes, in whatever order, the branch
  does not stay suspended, and if no exception leaves it the transcript is the old one,
  then the assistant turns of this completion (the last carrying the calls), then one
  tool-result turn per requested call whose \<^verbatim>\<open>tool_call_id\<close>s are the ids of the calls in
  request order.
\<close>

theorem tool_results_in_request_order:
  assumes "set schedule = {..<length tcs}"
  shows "tool_calls_branch dumps cts rcontent tcs schedule st \<noteq> None
     \<and> (\<forall>st'. tool_calls_branch dumps cts rcontent tcs schedule st = Some (Inr st') \<longrightarrow>
          (\<exists>pre turns. o_messages st' = o_messages st @ pre @ turns
             \<and> pre \<noteq> [] \<and> m_tool_calls (last pre) = Some (map (stored_call dumps) tcs)
             \<and> length turns = length tcs
             \<and> map m_tool_call_id turns = map (\<lambda>tc. Some (tc_id tc)) tcs
             \<and> (\<forall>m \<in> set turns. m_role m = ''tool'')))"
proof -
  let ?c = "completion_text rcontent"
  let ?a = "\<lparr>m_role = ''assistant'', m_content = ?c,
      m_tool_calls = Some (map (stored_call dumps) tcs), m_tool_call_id = None\<rparr>"
  let ?pre = "(if ?c \<noteq> [] then [assistant_text ?c] else []) @ [?a]"
  let ?st1 = "if ?c \<noteq> []
                 then st\<lparr>o_updates := o_updates st @ [(''thinking'', ?c)],
                         o_messages := o_messages st @ [assistant_text ?c]\<rparr>
                 else st"
  let ?st2 = "?st1\<lparr>o_messages := o_messages ?st1 @ [?a]\<rparr>"
  have br: "tool_calls_branch dumps cts rcontent tcs schedule st =
     (case gather cts tcs schedule (o_world st) of
           None \<Rightarrow> None
         | Some (Inl e) \<Rightarrow> Some (Inl e)
         | Some (Inr (ress, w')) \<Rightarrow> Some (Inr (fold append_result ress (?st2\<lparr>o_world := w'\<rparr>))))"
    by (simp add: tool_calls_branch_def Let_def)
  have m2: "o_messages ?st2 = o_messages st @ ?pre" by simp
  have settles: "gather cts tcs schedule (o_world st) \<noteq> None"
    by (rule gather_settles) (simp add: assms)
  have 1: "tool_calls_branch dumps cts rcontent tcs schedule st \<noteq> None"
    using settles by (auto simp: br split: option.splits sum.splits prod.splits)
  have 2: "\<exists>pre turns. o_messages st' = o_messages st @ pre @ turns
             \<and> pre \<noteq> [] \<and> m_tool_calls (last pre) = Some (map (stored_call dumps) tcs)
             \<and> length turns = length tcs
             \<and> map m_tool_call_id turns = map (\<lambda>tc. Some (tc_id tc)) tcs
             \<and> (\<forall>m \<in> set turns. m_role m = ''tool'')"
    if st': "tool_calls_branch dumps cts rcontent tcs schedule st = Some (Inr st')" for st'
  proof -
    from st' obtain ress w' where
      g: "gather cts tcs schedule (o_world st) = Some (Inr (ress, w'))"
      and e: "st' = fold append_result ress (?st2\<lparr>o_world := w'\<rparr>)"
      by (auto simp: br split: option.splits sum.splits prod.splits)
    from gather_order [OF g] have
      len: "length ress = length tcs"
      and ids: "\<forall>i < length tcs. x_tool_call_id (ress ! i) = tc_id (tcs ! i) \<and> x_role (ress ! i) = ''tool''"
      by auto
    have msgs: "o_messages st' = o_messages st @ ?pre @ map tool_turn ress"
      by (simp add: e fold_append_result_messages)
    have "map m_tool_call_id (map tool_turn ress) = map (\<lambda>tc. Some (tc_id tc)) tcs"
      using len ids by (auto simp: list_eq_iff_nth_eq tool_turn_def)
    moreover have "\<forall>m \<in> set (map tool_turn ress). m_role m = ''tool''"
      using len ids by (auto simp: in_set_conv_nth tool_turn_def)
    moreover have "?pre \<noteq> [] \<and> m_tool_calls (last ?pre) = Some (map (stored_call dumps) tcs)"
      by simp
    ultimately show ?thesis using msgs len
      by (intro exI [of _ ?pre] exI [of _ "map tool_turn ress"]) simp
  qed
  show ?thesis using 1 2 by blast
qed

lemmas ex_branch_defs = tool_calls_branch_def gather_def execute_tool_call_def ex_crew_tools_def
  ex_calls_def ex_orch_def append_result_def tool_turn_def completion_text_def Let_def

lemma ex_branch_value:
  "map_option (map_sum id (\<lambda>st. map m_content (o_messages st)))
     (tool_calls_branch (\<lambda>a. ''{}'') ex_crew_tools None ex_calls [1, 0, 2]
        (ex_orch (new_pool 7) empty_registry))
   = Some (Inr [''Task: scan'', [], ''*'', [], ''**''])"
  by (simp add: ex_branch_defs ex_user_def)

theorem tool_results_in_request_order_witness:
  "map_option (map_sum id (\<lambda>st. map m_content (o_messages st)))
     (tool_calls_branch (\<lambda>a. ''{}'') ex_crew_tools None ex_calls [1, 0, 2]
        (ex_orch (new_pool 7) empty_registry))
   = Some (Inr [''Task: scan'', [], ''*'', [], ''**''])
   \<and> (\<exists>st' pre turns.
        tool_calls_branch (\<lambda>a. ''{}'') ex_crew_tools None ex_calls [1, 0, 2]
          (ex_orch (new_pool 7) empty_registry) = Some (Inr st')
        \<and> o_messages st' = [ex_user] @ pre @ turns
        \<and> map m_tool_call_id turns = [Some ''T1'', Some ''T2'', Some ''T3''])"
proof -
  have s: "set [1, 0, 2] = {..<length ex_calls}"
    by (auto simp: ex_calls_def)
  from ex_branch_value obtain st' where
    st': "tool_calls_branch (\<lambda>a. ''{}'') ex_crew_tools None ex_calls [1, 0, 2]
          (ex_orch (new_pool 7) empty_registry) = Some (Inr st')"
    by (cases "tool_calls_branch (\<lambda>a. ''{}'') ex_crew_tools None ex_calls [1, 0, 2]
          (ex_orch (new_pool 7) empty_registry)") (auto simp: map_sum_def split: sum.splits)
  from tool_results_in_request_order [OF s, of "\<lambda>a. ''{}''" ex_crew_tools None
      "ex_orch (new_pool 7) empty_registry"] st'
  obtain pre turns where
    "o_messages st' = o_messages (ex_orch (new_pool 7) empty_registry) @ pre @ turns"
    "map m_tool_call_id turns = map (\<lambda>tc. Some (tc_id tc)) ex_calls"
    by blast
  then have "o_messages st' = [ex_user] @ pre @ turns"
    "map m_tool_call_id turns = [Some ''T1'', Some ''T2'', Some ''T3'']"
    by (simp_all add: ex_orch_def ex_calls_def)
  with st' have "\<exists>st' pre turns.
        tool_calls_branch (\<lambda>a. ''{}'') ex_crew_tools None ex_calls [1, 0, 2]
          (ex_orch (new_pool 7) empty_registry) = Some (Inr st')
        \<and> o_messages st' = [ex_user] @ pre @ turns
        \<and> map m_tool_call_id turns = [Some ''T1'', Some ''T2'', Some ''T3'']"
    by (intro exI [of _ st'] exI [of _ pre] exI [of _ turns]) simp
  with ex_branch_value show ?thesis by (rule conjI)
qed

section \<open>The orchestrator without tool calls\<close>

text \<open>
  C5 (amended). For a completion without tool calls: when the registry lists no live
  worker record for the pool's project, the text becomes the report and no tool runs;
  when it lists at least one, \<^verbatim>\<open>finish\<close> is executed with the text as \<^verbatim>\<open>context\<close> and what it
  returns becomes the report; when it lists at least one and the tool set has no \<^verbatim>\<open>finish\<close>,
  the text becomes the report.
\<close>

theorem no_tool_call_completion_report:
  "(get_workers (w_pool (o_world st)) (w_registry (o_world st)) now = Inr [] \<longrightarrow>
      (\<exists>st'. no_tool_calls_branch cts now rcontent st = Inr st'
         \<and> o_final_report st' = completion_text rcontent \<and> o_world st' = o_world st))
   \<and> (\<forall>ws ft report w'.
         get_workers (w_pool (o_world st)) (w_registry (o_world st)) now = Inr ws \<and> ws \<noteq> []
         \<and> find (\<lambda>t. ct_name t = ''finish'') cts = Some ft
         \<and> ct_execute ft [''context'' \<mapsto> JStr (completion_text rcontent)] (o_world st)
             = (Inr report, w') \<longrightarrow>
         (\<exists>st'. no_tool_calls_branch cts now rcontent st = Inr st'
            \<and> o_final_report st' = report \<and> o_world st' = w'))
   \<and> (\<forall>ws. get_workers (w_pool (o_world st)) (w_registry (o_world st)) now = Inr ws \<and> ws \<noteq> []
         \<and> find (\<lambda>t. ct_name t = ''finish'') cts = None \<longrightarrow>
         (\<exists>st'. no_tool_calls_branch cts now rcontent st = Inr st'
            \<and> o_final_report st' = completion_text rcontent \<and> o_world st' = o_world st))"
  by (auto simp: no_tool_calls_branch_def Let_def)

lemma ex_workers_listed:
  "project_id p = 7 \<Longrightarrow>
     map_sum id (map wid) (get_workers p (snd ex_settled) 40) = Inr [''agent-0'', ''agent-1'']"
  by (simp add: get_workers_def get_all_workers_def ex_settled_list ex_settled_record_0
      ex_settled_record_1)

lemma ex_finish_found:
  "find (\<lambda>t. ct_name t = ''finish'') ex_crew_tools
     = Some \<lparr>ct_name = ''finish'', ct_execute = (\<lambda>args w. (Inr ''REPORT'', w))\<rparr>"
  by (simp add: ex_crew_tools_def)

theorem no_tool_call_completion_report_witness:
  "get_workers (new_pool 7) empty_registry 40 = Inr []
   \<and> (\<exists>st'. no_tool_calls_branch ex_crew_tools 40 (Some ''All done.'')
               (ex_orch (new_pool 7) empty_registry) = Inr st'
           \<and> o_final_report st' = ''All done.'')
   \<and> map_sum id (map wid) (get_workers (fst ex_settled) (snd ex_settled) 40)
        = Inr [''agent-0'', ''agent-1'']
   \<and> (\<exists>st'. no_tool_calls_branch ex_crew_tools 40 (Some ''All done.'')
               (ex_orch (fst ex_settled) (snd ex_settled)) = Inr st'
           \<and> o_final_report st' = ''REPORT'')"
proof -
  let ?st0 = "ex_orch (new_pool 7) empty_registry"
  let ?st1 = "ex_orch (fst ex_settled) (snd ex_settled)"
  have e: "get_workers (new_pool 7) empty_registry 40 = Inr []"
    by (simp add: get_workers_def get_all_workers_def current_list_def cache_get_def
        empty_registry_def)
  have l: "map_sum id (map wid) (get_workers (fst ex_settled) (snd ex_settled) 40)
      = Inr [''agent-0'', ''agent-1'']"
    by (rule ex_workers_listed) (rule ex_settled_project)
  then obtain ws where ws: "get_workers (fst ex_settled) (snd ex_settled) 40 = Inr ws" "ws \<noteq> []"
    by (cases "get_workers (fst ex_settled) (snd ex_settled) 40") auto
  have x: "ct_execute \<lparr>ct_name = ''finish'', ct_execute = (\<lambda>args w. (Inr ''REPORT'', w))\<rparr>
      [''context'' \<mapsto> JStr (completion_text (Some ''All done.''))] (o_world ?st1)
      = (Inr ''REPORT'', o_world ?st1)"
    by simp
  have a: "\<exists>st'. no_tool_calls_branch ex_crew_tools 40 (Some ''All done.'') ?st0 = Inr st'
      \<and> o_final_report st' = ''All done.''"
    using no_tool_call_completion_report [of ?st0 40 ex_crew_tools "Some ''All done.''"] e
    by (auto simp: ex_orch_def completion_text_def)
  have b: "\<exists>st'. no_tool_calls_branch ex_crew_tools 40 (Some ''All done.'') ?st1 = Inr st'
      \<and> o_final_report st' = ''REPORT''"
    using no_tool_call_completion_report [of ?st1 40 ex_crew_tools "Some ''All done.''"]
      ws ex_finish_found x
    by (auto simp: ex_orch_def)
  show ?thesis using e a l b by blast
qed

text \<open>
  C5 as stated fails when the registry still holds records of an earlier run on the same
  project: the pool of this run has spawned nothing, yet \<^verbatim>\<open>finish\<close> is executed and the text
  is not the report.
\<close>

theorem stale_records_force_finish_counterexample:
  "tasks (new_pool 7) = []
   \<and> map_sum id o_final_report
        (no_tool_calls_branch ex_crew_tools 40 (Some ''All done.'')
           (ex_orch (new_pool 7) (snd ex_settled))) = Inr ''REPORT''"
proof -
  have "map_sum id (map wid) (get_workers (new_pool 7) (snd ex_settled) 40)
      = Inr [''agent-0'', ''agent-1'']"
    by (rule ex_workers_listed) (simp add: new_pool_def)
  then obtain ws where ws: "get_workers (new_pool 7) (snd ex_settled) 40 = Inr ws" "ws \<noteq> []"
    by (cases "get_workers (new_pool 7) (snd ex_settled) 40") auto
  then show ?thesis
    by (simp add: no_tool_calls_branch_def Let_def ex_orch_def ex_finish_found new_pool_def)
qed

end
